theory Spec2Isabelle
  imports Main "HOL-Library.AList"
begin

section \<open>Values, errors and the key-value backend\<close>

text \<open>
  The storage service keeps every store and every entity collection as one JSON text
  under one key of AsyncStorage. A JSON text is modelled by the value it denotes, so
  \<open>JSON.stringify\<close> followed by \<open>JSON.parse\<close> is the identity on \<open>json\<close>.
  Numbers are integers, strings are ASCII, and an object is an association list in
  insertion order (the key order of a JavaScript object has no effect on any property
  read). The values handed in by a caller (records, patches, criteria, store contents)
  are JSON values as well. Every item the backend holds is a JSON text (the service
  writes nothing else), and the backend itself does not fail: \<open>getItem\<close> resolves with
  the text or, for a missing key, with \<open>null\<close>.
\<close>

datatype json =
    JNull
  | JBool bool
  | JNum int
  | JStr string
  | JArr "json list"
  | JObj "(string \<times> json) list"

text \<open>What an awaited backend call hands back: a JSON text, \<open>null\<close> or \<open>undefined\<close>.\<close>

datatype raw = RText json | RNull | RUndefined

text \<open>
  The exceptions of the code: the engine's \<open>TypeError\<close> and \<open>SyntaxError\<close>,
  \<open>throw new Error(msg)\<close> and the bare \<open>throw msg\<close> of a string.
\<close>

datatype error = TypeError | SyntaxError | Error string | Thrown string

type_synonym backend = "string \<rightharpoonup> json"

definition ENTITY_PREFIX :: string where
  "ENTITY_PREFIX = ''entity''"

definition STORE_PREFIX :: string where
  "STORE_PREFIX = ''store''"

definition getItem :: "backend \<Rightarrow> string \<Rightarrow> raw" where
  "getItem be key = (case be key of None \<Rightarrow> RNull | Some j \<Rightarrow> RText j)"

definition setItem :: "backend \<Rightarrow> string \<Rightarrow> json \<Rightarrow> backend" where
  "setItem be key text = be(key \<mapsto> text)"

text \<open>
  \<open>JSON.parse\<close> turns its argument into a string first: \<open>null\<close> reads as the text
  \<open>null\<close>, \<open>undefined\<close> as the text \<open>undefined\<close>, which is no JSON.
\<close>

fun JSON_parse :: "raw \<Rightarrow> error + json" where
  "JSON_parse (RText j) = Inr j"
| "JSON_parse RNull = Inr JNull"
| "JSON_parse RUndefined = Inl SyntaxError"

definition JSON_stringify :: "json \<Rightarrow> json" where
  "JSON_stringify v = v"

subsection \<open>Truthiness, strict equality, property reads\<close>

fun truthy :: "json \<Rightarrow> bool" where
  "truthy JNull = False"
| "truthy (JBool b) = b"
| "truthy (JNum n) = (n \<noteq> 0)"
| "truthy (JStr s) = (s \<noteq> [])"
| "truthy (JArr xs) = True"
| "truthy (JObj fs) = True"

text \<open>
  \<open>a === b\<close> where \<open>a\<close> was parsed from a stored text and \<open>b\<close> comes from the caller:
  primitives are compared by value; an array or object is equal only to itself, and a
  freshly parsed one is never the caller's.
\<close>

fun strict_eq :: "json \<Rightarrow> json \<Rightarrow> bool" where
  "strict_eq JNull JNull = True"
| "strict_eq (JBool a) (JBool b) = (a = b)"
| "strict_eq (JNum a) (JNum b) = (a = b)"
| "strict_eq (JStr a) (JStr b) = (a = b)"
| "strict_eq _ _ = False"

text \<open>The same on values that may be \<open>undefined\<close> (\<open>None\<close>).\<close>

fun strict_eq_opt :: "json option \<Rightarrow> json option \<Rightarrow> bool" where
  "strict_eq_opt None None = True"
| "strict_eq_opt (Some a) (Some b) = strict_eq a b"
| "strict_eq_opt _ _ = False"

definition digit_char :: "nat \<Rightarrow> char" where
  "digit_char d = char_of (48 + d)"

fun show_nat :: "nat \<Rightarrow> string" where
  "show_nat n = (if n < 10 then [digit_char n] else show_nat (n div 10) @ [digit_char (n mod 10)])"

declare show_nat.simps [simp del]

text \<open>The index properties of an array or string: keys \<open>0\<close>, \<open>1\<close>, ...\<close>

definition indexed :: "json list \<Rightarrow> (string \<times> json) list" where
  "indexed xs = zip (map show_nat [0..<length xs]) xs"

definition chars_of :: "string \<Rightarrow> json list" where
  "chars_of s = map (\<lambda>c. JStr [c]) s"

text \<open>
  \<open>record[key]\<close>: the own property, \<open>None\<close> for \<open>undefined\<close>; reading a property of
  \<open>null\<close> throws. A member inherited from a prototype (a built-in function) is read as
  \<open>None\<close> too: the service only compares the result with a JSON value, and neither
  \<open>undefined\<close> nor a built-in is strictly equal to one.
\<close>

fun get_prop :: "json \<Rightarrow> string \<Rightarrow> error + json option" where
  "get_prop JNull key = Inl TypeError"
| "get_prop (JObj fs) key = Inr (map_of fs key)"
| "get_prop (JArr xs) key =
     Inr (if key = ''length'' then Some (JNum (int (length xs))) else map_of (indexed xs) key)"
| "get_prop (JStr s) key =
     Inr (if key = ''length'' then Some (JNum (int (length s))) else map_of (indexed (chars_of s)) key)"
| "get_prop (JBool b) key = Inr None"
| "get_prop (JNum n) key = Inr None"

text \<open>The own enumerable properties, as object spread \<open>{...v}\<close> copies them.\<close>

fun own_props :: "json option \<Rightarrow> (string \<times> json) list" where
  "own_props (Some (JObj fs)) = fs"
| "own_props (Some (JArr xs)) = indexed xs"
| "own_props (Some (JStr s)) = indexed (chars_of s)"
| "own_props _ = []"

text \<open>\<open>{...a, ...b}\<close>: the properties of \<open>a\<close>, overwritten and extended by those of \<open>b\<close>.\<close>

definition spread_merge :: "(string \<times> json) list \<Rightarrow> (string \<times> json) list \<Rightarrow> (string \<times> json) list" where
  "spread_merge a b = fold (\<lambda>(k, v). AList.update k v) b a"

text \<open>Array spread \<open>[...data]\<close>: only an array or a string is iterable.\<close>

fun spread_array :: "json \<Rightarrow> error + json list" where
  "spread_array (JArr xs) = Inr xs"
| "spread_array (JStr s) = Inr (chars_of s)"
| "spread_array _ = Inl TypeError"

text \<open>Calling an array method (\<open>push\<close>, \<open>find\<close>, \<open>filter\<close>) on a parsed value.\<close>

fun as_array :: "json \<Rightarrow> error + json list" where
  "as_array (JArr xs) = Inr xs"
| "as_array _ = Inl TypeError"

text \<open>\<open>v || []\<close>\<close>

definition or_empty :: "json \<Rightarrow> json" where
  "or_empty v = (if truthy v then v else JArr [])"

section \<open>StorageService\<close>

definition getEntityName :: "string \<Rightarrow> bool \<Rightarrow> string" where
  "getEntityName entityName isStore =
     (if isStore then STORE_PREFIX else ENTITY_PREFIX) @ ''_'' @ entityName"

text \<open>An omitted argument takes the default of the parameter list.\<close>

definition default_to :: "'a \<Rightarrow> 'a option \<Rightarrow> 'a" where
  "default_to d v = (case v of None \<Rightarrow> d | Some x \<Rightarrow> x)"

subsection \<open>Stores\<close>

text \<open>A stored text is a non-empty string, so \<open>if (store)\<close> tests its presence.\<close>

definition getStore :: "backend \<Rightarrow> string \<Rightarrow> error + json" where
  "getStore be entity =
     (let entityName = getEntityName entity True;
          store = getItem be entityName
      in case store of
           RText j \<Rightarrow> JSON_parse store
         | _ \<Rightarrow> Inr (JBool False))"

text \<open>
  \<open>initStore\<close> and \<open>setStore\<close> parse what the awaited \<open>AsyncStorage.setItem\<close> resolves
  with. AsyncStorage is not part of the repository: that value is the parameter
  \<open>set_result\<close>.
\<close>

definition initStore :: "raw \<Rightarrow> backend \<Rightarrow> string \<Rightarrow> json option \<Rightarrow> backend \<times> (error + json)" where
  "initStore set_result be entity defaultValue =
     (let entityName = getEntityName entity True;
          be' = setItem be entityName (JSON_stringify (default_to (JObj []) defaultValue));
          store = set_result
      in (be', JSON_parse store))"

definition setStore :: "raw \<Rightarrow> backend \<Rightarrow> string \<Rightarrow> json option \<Rightarrow> backend \<times> (error + json)" where
  "setStore set_result be entity values =
     (let entityName = getEntityName entity True;
          be' = setItem be entityName (JSON_stringify (default_to (JObj []) values));
          store = set_result
      in (be', JSON_parse store))"

subsection \<open>Entities\<close>

text \<open>
  \<open>filterData\<close>: \<open>Object.keys(criteria)\<close> is an array and so never falsy; the early
  return is dead. The default \<open>data = []\<close> stands in for \<open>undefined\<close> only, which
  \<open>JSON.parse\<close> never returns. The \<open>forEach\<close> over the keys keeps the flag \<open>isValid\<close>.
\<close>

fun forEach_key :: "string list \<Rightarrow> json \<Rightarrow> (string \<times> json) list \<Rightarrow> bool \<Rightarrow> error + bool" where
  "forEach_key [] record criteria isValid = Inr isValid"
| "forEach_key (key # keys) record criteria isValid =
     (case get_prop record key of
        Inl e \<Rightarrow> Inl e
      | Inr v \<Rightarrow>
          forEach_key keys record criteria
            (if \<not> strict_eq_opt v (map_of criteria key) then False else isValid))"

fun filter_records :: "json list \<Rightarrow> (string \<times> json) list \<Rightarrow> error + json list" where
  "filter_records [] criteria = Inr []"
| "filter_records (record # rest) criteria =
     (case forEach_key (map fst criteria) record criteria True of
        Inl e \<Rightarrow> Inl e
      | Inr isValid \<Rightarrow>
          (case filter_records rest criteria of
             Inl e \<Rightarrow> Inl e
           | Inr kept \<Rightarrow> Inr (if isValid then record # kept else kept)))"

definition filterData :: "json \<Rightarrow> (string \<times> json) list \<Rightarrow> error + json" where
  "filterData data criteria =
     (case spread_array data of
        Inl e \<Rightarrow> Inl e
      | Inr resultData \<Rightarrow>
          (case filter_records resultData criteria of
             Inl e \<Rightarrow> Inl e
           | Inr kept \<Rightarrow> Inr (JArr kept)))"

text \<open>\<open>getData\<close>: the criteria \<open>None\<close> is the default \<open>false\<close>.\<close>

definition getData :: "backend \<Rightarrow> string \<Rightarrow> (string \<times> json) list option \<Rightarrow> error + json" where
  "getData be entityName criteria =
     (let storageName = getEntityName entityName False;
          data = getItem be storageName
      in case criteria of
           Some c \<Rightarrow> (case JSON_parse data of Inl e \<Rightarrow> Inl e | Inr d \<Rightarrow> filterData d c)
         | None \<Rightarrow> JSON_parse data)"

definition getAll :: "backend \<Rightarrow> string \<Rightarrow> error + json" where
  "getAll be entity =
     (case getData be entity None of
        Inl e \<Rightarrow> Inl e
      | Inr records \<Rightarrow> (case records of JArr xs \<Rightarrow> Inr records | _ \<Rightarrow> Inr (JBool False)))"

definition persistData :: "backend \<Rightarrow> string \<Rightarrow> json \<Rightarrow> backend \<times> (error + bool)" where
  "persistData be entity data =
     (setItem be (getEntityName entity False) (JSON_stringify data), Inr True)"

definition findAll :: "backend \<Rightarrow> string \<Rightarrow> (string \<times> json) list option \<Rightarrow> error + json" where
  "findAll be entity criteria =
     (case getData be entity (Some (default_to [] criteria)) of
        Inl e \<Rightarrow> Inl e
      | Inr found \<Rightarrow> Inr (or_empty found))"

text \<open>
  The caller's object after \<open>data.ui_code = uuid()\<close>. An array takes the property too,
  but \<open>JSON.stringify\<close> writes only its elements.
\<close>

datatype jsobj = Object "(string \<times> json) list" | Array "json list" "(string \<times> json) list"

fun serialise :: "jsobj \<Rightarrow> json" where
  "serialise (Object fs) = JObj fs"
| "serialise (Array xs props) = JArr xs"

text \<open>
  Assigning a property: \<open>null\<close> has none, and in strict code (a class body) neither has
  a primitive.
\<close>

fun assign_ui_code :: "json \<Rightarrow> string \<Rightarrow> error + jsobj" where
  "assign_ui_code (JObj fs) u = Inr (Object (AList.update ''ui_code'' (JStr u) fs))"
| "assign_ui_code (JArr xs) u = Inr (Array xs [(''ui_code'', JStr u)])"
| "assign_ui_code _ u = Inl TypeError"

text \<open>
  \<open>addRecord\<close>: the package uuidv4 is not part of the repository; \<open>u\<close> is the string its
  \<open>uuid()\<close> returns in this call.
\<close>

definition addRecord :: "string \<Rightarrow> backend \<Rightarrow> string \<Rightarrow> json option \<Rightarrow> backend \<times> (error + jsobj)" where
  "addRecord u be entity data =
     (case assign_ui_code (default_to (JObj []) data) u of
        Inl e \<Rightarrow> (be, Inl e)
      | Inr data' \<Rightarrow>
          (case getData be entity None of
             Inl e \<Rightarrow> (be, Inl e)
           | Inr got \<Rightarrow>
               (case as_array (or_empty got) of
                  Inl e \<Rightarrow> (be, Inl e)
                | Inr records \<Rightarrow>
                    (case persistData be entity (JArr (records @ [serialise data'])) of
                       (be', Inl e) \<Rightarrow> (be', Inl e)
                     | (be', Inr ok) \<Rightarrow> (be', Inr data')))))"

text \<open>\<open>currentRecords.find((record, index) => ...)\<close>, which stops at the first match.\<close>

fun find_record :: "json list \<Rightarrow> json option \<Rightarrow> nat \<Rightarrow> error + (json \<times> nat) option" where
  "find_record [] ui_code index = Inr None"
| "find_record (record # rest) ui_code index =
     (case get_prop record ''ui_code'' of
        Inl e \<Rightarrow> Inl e
      | Inr v \<Rightarrow>
          if strict_eq_opt v ui_code then Inr (Some (record, index))
          else find_record rest ui_code (Suc index))"

text \<open>
  \<open>currentRecords[recordIndex] = currentData\<close>: with \<open>recordIndex\<close> still \<open>null\<close> the
  assignment sets the property named \<open>null\<close>, which is no element and is not
  serialised; past the end, the array grows and its holes are written as \<open>null\<close>.
\<close>

fun assign_index :: "json list \<Rightarrow> nat option \<Rightarrow> json \<Rightarrow> json list" where
  "assign_index xs None v = xs"
| "assign_index xs (Some i) v =
     (if i < length xs then xs[i := v] else xs @ replicate (i - length xs) JNull @ [v])"

definition updateRecord :: "backend \<Rightarrow> string \<Rightarrow> json option \<Rightarrow> backend \<times> (error + bool)" where
  "updateRecord be entity newData =
     (let nd = default_to (JObj []) newData in
      case get_prop nd ''ui_code'' of
        Inl e \<Rightarrow> (be, Inl e)
      | Inr ui_code \<Rightarrow>
          if \<not> (case ui_code of None \<Rightarrow> False | Some c \<Rightarrow> truthy c)
          then (be, Inl (Error ''Record does not exists''))
          else
            (case getData be entity None of
               Inl e \<Rightarrow> (be, Inl e)
             | Inr got \<Rightarrow>
                 (case as_array (or_empty got) of
                    Inl e \<Rightarrow> (be, Inl e)
                  | Inr currentRecords \<Rightarrow>
                      (case find_record currentRecords ui_code 0 of
                         Inl e \<Rightarrow> (be, Inl e)
                       | Inr found \<Rightarrow>
                           (let recordIndex = map_option snd found;
                                currentData = map_option fst found;
                                merged = JObj (spread_merge (own_props currentData) (own_props (Some nd)))
                            in persistData be entity
                                 (JArr (assign_index currentRecords recordIndex merged)))))))"

text \<open>\<open>currentRecords.filter(record => record.ui_code !== ui_code)\<close>\<close>

fun filter_others :: "json list \<Rightarrow> json option \<Rightarrow> error + json list" where
  "filter_others [] ui_code = Inr []"
| "filter_others (record # rest) ui_code =
     (case get_prop record ''ui_code'' of
        Inl e \<Rightarrow> Inl e
      | Inr v \<Rightarrow>
          (case filter_others rest ui_code of
             Inl e \<Rightarrow> Inl e
           | Inr kept \<Rightarrow> Inr (if \<not> strict_eq_opt v ui_code then record # kept else kept)))"

definition deleteRecord :: "backend \<Rightarrow> string \<Rightarrow> json option \<Rightarrow> backend \<times> (error + bool)" where
  "deleteRecord be entity ui_code =
     (if \<not> (case ui_code of None \<Rightarrow> False | Some c \<Rightarrow> truthy c)
      then (be, Inl (Thrown ''Record does not exists''))
      else
        (case getData be entity None of
           Inl e \<Rightarrow> (be, Inl e)
         | Inr got \<Rightarrow>
             (case as_array (or_empty got) of
                Inl e \<Rightarrow> (be, Inl e)
              | Inr currentRecords \<Rightarrow>
                  (case filter_others currentRecords ui_code of
                     Inl e \<Rightarrow> (be, Inl e)
                   | Inr kept \<Rightarrow> persistData be entity (JArr kept)))))"

definition initEntity :: "string \<Rightarrow> backend \<Rightarrow> string \<Rightarrow> backend \<times> (error + jsobj)" where
  "initEntity u be entity = addRecord u be entity (Some (JArr []))"

section \<open>SessionService\<close>

text \<open>
  The service caches the session store in its field \<open>session\<close>, \<open>null\<close> in a new
  instance. \<open>get\<close> reads the cache only. (A key that names a built-in member of the
  prototype is outside the model: \<open>get\<close> would return that member.)
\<close>

record SessionService =
  session :: json

definition SessionService_new :: SessionService where
  "SessionService_new = \<lparr>session = JNull\<rparr>"

definition SESSION_STORE :: string where
  "SESSION_STORE = ''session''"

text \<open>\<open>read\<close> replaces the cache by what \<open>getStore\<close> returns, \<open>false\<close> for an absent store.\<close>

definition SessionService_read :: "SessionService \<Rightarrow> backend \<Rightarrow> SessionService \<times> (error + json)" where
  "SessionService_read this be =
     (case getStore be SESSION_STORE of
        Inl e \<Rightarrow> (this, Inl e)
      | Inr store \<Rightarrow> (this\<lparr>session := store\<rparr>, Inr store))"

definition SessionService_get :: "SessionService \<Rightarrow> string \<Rightarrow> json option \<Rightarrow> error + json" where
  "SessionService_get this key defaultValue =
     (case get_prop (session this) key of
        Inl e \<Rightarrow> Inl e
      | Inr None \<Rightarrow> Inr (default_to JNull defaultValue)
      | Inr (Some v) \<Rightarrow> Inr (if truthy v then v else default_to JNull defaultValue))"

section \<open>Example data\<close>

definition todos_example :: "json list" where
  "todos_example =
     [JObj [(''title'', JStr ''buy milk''), (''done'', JBool True), (''ui_code'', JStr ''id-1'')],
      JObj [(''title'', JStr ''call home''), (''done'', JBool False), (''ui_code'', JStr ''id-2'')],
      JObj [(''title'', JStr ''pay rent''), (''done'', JBool True), (''ui_code'', JStr ''id-3'')]]"

definition todos_backend :: backend where
  "todos_backend = Map.empty(''entity_todos'' \<mapsto> JArr todos_example)"

definition items_backend :: backend where
  "items_backend =
     Map.empty(''entity_items'' \<mapsto>
       JArr [JObj [(''ui_code'', JStr ''b''), (''x'', JNum 0)],
             JObj [(''ui_code'', JStr ''a''), (''x'', JNum 1), (''y'', JNum 2)]])"

definition taken_id :: string where
  "taken_id = ''110ec58a-a0f2-4ac4-8393-c866d813b8d1''"

definition taken_backend :: backend where
  "taken_backend =
     Map.empty(''entity_todos'' \<mapsto>
       JArr [JObj [(''title'', JStr ''buy milk''), (''ui_code'', JStr taken_id)]])"

section \<open>Reading a collection\<close>

lemma getData_unfiltered:
  "getData be entity None =
     Inr (case be (getEntityName entity False) of None \<Rightarrow> JNull | Some j \<Rightarrow> j)"
  by (simp add: getData_def getItem_def split: option.split)

lemma getData_filtered:
  "getData be entity (Some c) =
     filterData (case be (getEntityName entity False) of None \<Rightarrow> JNull | Some j \<Rightarrow> j) c"
  by (simp add: getData_def getItem_def split: option.split)

lemma todos_backend_stored:
  "todos_backend (getEntityName ''todos'' False) = Some (JArr todos_example)"
  by (simp add: todos_backend_def getEntityName_def ENTITY_PREFIX_def)

lemma items_backend_stored:
  "items_backend (getEntityName ''items'' False) =
     Some (JArr ([JObj [(''ui_code'', JStr ''b''), (''x'', JNum 0)]]
                 @ JObj [(''ui_code'', JStr ''a''), (''x'', JNum 1), (''y'', JNum 2)] # []))"
  by (simp add: items_backend_def getEntityName_def ENTITY_PREFIX_def)

lemma get_prop_total: "r \<noteq> JNull \<Longrightarrow> \<exists>v. get_prop r key = Inr v"
  by (cases r) simp_all

lemma strict_eq_opt_Some:
  "strict_eq_opt v (Some c) \<longleftrightarrow> (\<exists>w. v = Some w \<and> strict_eq w c)"
  by (cases v) simp_all

text \<open>Strict equality is equality of primitives.\<close>

lemma strict_eq_iff:
  "strict_eq a b \<longleftrightarrow> a = b \<and> (case a of JArr xs \<Rightarrow> False | JObj fs \<Rightarrow> False | _ \<Rightarrow> True)"
  by (cases a; cases b) auto

lemma strict_eq_JStr: "strict_eq w (JStr k) \<longleftrightarrow> w = JStr k"
  by (cases w) auto

section \<open>The criteria filter\<close>

lemma forEach_key_flag:
  "r \<noteq> JNull \<Longrightarrow>
   forEach_key keys r criteria isValid =
     Inr (isValid \<and> (\<forall>key\<in>set keys. \<exists>v. get_prop r key = Inr v \<and> strict_eq_opt v (map_of criteria key)))"
proof (induction keys arbitrary: isValid)
  case Nil
  then show ?case by simp
next
  case (Cons key keys)
  from get_prop_total [OF Cons.prems] obtain v where v: "get_prop r key = Inr v" by blast
  show ?case using Cons.IH [OF Cons.prems] v by auto
qed

lemma all_criteria_keys:
  "(\<forall>key\<in>set (map fst criteria). \<exists>v. get_prop r key = Inr v \<and> strict_eq_opt v (map_of criteria key))
   \<longleftrightarrow> (\<forall>key c. map_of criteria key = Some c \<longrightarrow>
          (\<exists>field. get_prop r key = Inr (Some field) \<and> strict_eq field c))"
  (is "?L \<longleftrightarrow> ?R")
proof
  assume l: ?L
  show ?R
  proof (intro allI impI)
    fix key c
    assume m: "map_of criteria key = Some c"
    then have "key \<in> set (map fst criteria)"
      by (metis map_of_eq_None_iff option.distinct(1) set_map)
    with l m show "\<exists>field. get_prop r key = Inr (Some field) \<and> strict_eq field c"
      by (auto simp: strict_eq_opt_Some)
  qed
next
  assume r: ?R
  show ?L
  proof
    fix key
    assume "key \<in> set (map fst criteria)"
    then obtain c where m: "map_of criteria key = Some c"
      by (metis map_of_eq_None_iff not_Some_eq set_map)
    with r obtain field where "get_prop r key = Inr (Some field)" "strict_eq field c"
      by blast
    with m show "\<exists>v. get_prop r key = Inr v \<and> strict_eq_opt v (map_of criteria key)"
      by simp
  qed
qed

lemma filter_records_filter:
  "JNull \<notin> set records \<Longrightarrow>
   filter_records records criteria =
     Inr (filter (\<lambda>r. \<forall>key c. map_of criteria key = Some c \<longrightarrow>
            (\<exists>field. get_prop r key = Inr (Some field) \<and> strict_eq field c)) records)"
proof (induction records)
  case Nil
  then show ?case by simp
next
  case (Cons r rest)
  then have nn: "r \<noteq> JNull" and rest: "JNull \<notin> set rest" by auto
  show ?case
    using Cons.IH [OF rest] forEach_key_flag [OF nn, of "map fst criteria" criteria True]
          all_criteria_keys [of criteria r]
    by simp
qed

lemma filter_records_no_criteria: "filter_records records [] = Inr records"
  by (induction records) simp_all

text \<open>
  C5. When the entity's collection exists, \<open>findAll(entity, criteria)\<close> returns, in the
  order of the collection, exactly the records in which every field named in the
  criteria is strictly equal to the criteria's value; with empty (or omitted) criteria
  it returns every record. A \<open>null\<close> element is no record: reading its field throws.
\<close>

theorem findAll_conjunctive_equality_filter:
  assumes "be (getEntityName entity False) = Some (JArr records)"
  shows "(JNull \<notin> set records \<longrightarrow>
          findAll be entity (Some criteria) =
            Inr (JArr (filter (\<lambda>r. \<forall>key c. map_of criteria key = Some c \<longrightarrow>
                         (\<exists>field. get_prop r key = Inr (Some field) \<and> strict_eq field c)) records)))
       \<and> findAll be entity (Some []) = Inr (JArr records)
       \<and> findAll be entity None = Inr (JArr records)"
  using assms
  by (simp add: findAll_def getData_filtered filterData_def filter_records_filter
      filter_records_no_criteria or_empty_def default_to_def)

text \<open>
  The scenario of three records with \<open>done\<close> being true, false, true, asked for
  \<open>{done: true}\<close>.
\<close>

theorem findAll_conjunctive_equality_filter_witness:
  "todos_backend (getEntityName ''todos'' False) = Some (JArr todos_example)
   \<and> JNull \<notin> set todos_example
   \<and> findAll todos_backend ''todos'' (Some [(''done'', JBool True)]) =
       Inr (JArr [JObj [(''title'', JStr ''buy milk''), (''done'', JBool True), (''ui_code'', JStr ''id-1'')],
                  JObj [(''title'', JStr ''pay rent''), (''done'', JBool True), (''ui_code'', JStr ''id-3'')]])
   \<and> findAll todos_backend ''todos'' (Some []) = Inr (JArr todos_example)"
proof -
  have records: "JNull \<notin> set todos_example"
    by (simp add: todos_example_def)
  from findAll_conjunctive_equality_filter
         [where be = todos_backend and entity = "''todos''" and records = todos_example
            and criteria = "[(''done'', JBool True)]", OF todos_backend_stored] records
  show ?thesis
    using todos_backend_stored by (simp add: todos_example_def)
qed

text \<open>
  C1. \<open>findAll\<close> is meant to return the empty sequence when the entity's collection is
  absent from the backend. The code does not: \<open>JSON.parse\<close> of the missing item is
  \<open>null\<close>, \<open>filterData\<close> spreads it, and for every entity and every criteria (also
  omitted ones) \<open>findAll\<close> throws a \<open>TypeError\<close>.
\<close>

theorem findAll_absent_collection_throws:
  "findAll (be(getEntityName entity False := None)) entity criteria = Inl TypeError"
  by (simp add: findAll_def getData_filtered filterData_def)

section \<open>Adding records\<close>

text \<open>
  C4, as the code has it. For every entity, every input record \<open>data\<close> and every
  string \<open>u\<close> returned by \<open>uuid()\<close>, \<open>addRecord\<close> returns \<open>data\<close> with its field
  \<open>ui_code\<close> set to \<open>u\<close> and every other field as it was, appends that record to the
  collection (an absent collection counting as empty) and persists it. The new
  \<open>ui_code\<close> is the generator's string, whatever the collection holds: it is non-empty
  and new to the collection when, and only when, the generator's string is.
\<close>

theorem addRecord_appends_generated_id:
  assumes "be (getEntityName entity False) = None \<and> records = []
           \<or> be (getEntityName entity False) = Some (JArr records)"
  shows "addRecord u be entity (Some (JObj data)) =
           (be(getEntityName entity False \<mapsto>
                 JArr (records @ [JObj (AList.update ''ui_code'' (JStr u) data)])),
            Inr (Object (AList.update ''ui_code'' (JStr u) data)))
       \<and> map_of (AList.update ''ui_code'' (JStr u) data) ''ui_code'' = Some (JStr u)
       \<and> (\<forall>key. key \<noteq> ''ui_code'' \<longrightarrow>
             map_of (AList.update ''ui_code'' (JStr u) data) key = map_of data key)"
  using assms
  by (auto simp: addRecord_def default_to_def getData_unfiltered or_empty_def persistData_def
      setItem_def JSON_stringify_def update_conv')

theorem addRecord_appends_generated_id_witness:
  "addRecord ''id-4'' todos_backend ''todos'' (Some (JObj [(''title'', JStr ''walk dog'')])) =
     (todos_backend(''entity_todos'' \<mapsto>
        JArr (todos_example @ [JObj [(''title'', JStr ''walk dog''), (''ui_code'', JStr ''id-4'')]])),
      Inr (Object [(''title'', JStr ''walk dog''), (''ui_code'', JStr ''id-4'')]))
   \<and> addRecord ''id-4'' Map.empty ''todos'' (Some (JObj [(''title'', JStr ''walk dog'')])) =
     (Map.empty(''entity_todos'' \<mapsto>
        JArr [JObj [(''title'', JStr ''walk dog''), (''ui_code'', JStr ''id-4'')]]),
      Inr (Object [(''title'', JStr ''walk dog''), (''ui_code'', JStr ''id-4'')]))"
proof -
  have present: "addRecord ''id-4'' todos_backend ''todos'' (Some (JObj [(''title'', JStr ''walk dog'')])) =
     (todos_backend(''entity_todos'' \<mapsto>
        JArr (todos_example @ [JObj [(''title'', JStr ''walk dog''), (''ui_code'', JStr ''id-4'')]])),
      Inr (Object [(''title'', JStr ''walk dog''), (''ui_code'', JStr ''id-4'')]))"
    using addRecord_appends_generated_id
            [where be = todos_backend and entity = "''todos''" and records = todos_example
               and u = "''id-4''" and data = "[(''title'', JStr ''walk dog'')]"]
          todos_backend_stored
    by (simp add: getEntityName_def ENTITY_PREFIX_def)
  have absent: "addRecord ''id-4'' Map.empty ''todos'' (Some (JObj [(''title'', JStr ''walk dog'')])) =
     (Map.empty(''entity_todos'' \<mapsto>
        JArr [JObj [(''title'', JStr ''walk dog''), (''ui_code'', JStr ''id-4'')]]),
      Inr (Object [(''title'', JStr ''walk dog''), (''ui_code'', JStr ''id-4'')]))"
    using addRecord_appends_generated_id
            [where be = Map.empty and entity = "''todos''" and records = "[]"
               and u = "''id-4''" and data = "[(''title'', JStr ''walk dog'')]"]
    by (simp add: getEntityName_def ENTITY_PREFIX_def)
  from present absent show ?thesis by simp
qed

text \<open>
  No collision check: when the generator returns an identifier that a stored record
  already carries, \<open>addRecord\<close> stores and returns a second record with that
  \<open>ui_code\<close>.
\<close>

theorem addRecord_no_collision_check:
  "getAll taken_backend ''todos'' =
     Inr (JArr [JObj [(''title'', JStr ''buy milk''), (''ui_code'', JStr taken_id)]])
   \<and> get_prop (JObj [(''title'', JStr ''buy milk''), (''ui_code'', JStr taken_id)]) ''ui_code''
       = Inr (Some (JStr taken_id))
   \<and> addRecord taken_id taken_backend ''todos'' (Some (JObj [(''title'', JStr ''call home'')])) =
       (taken_backend(''entity_todos'' \<mapsto>
          JArr [JObj [(''title'', JStr ''buy milk''), (''ui_code'', JStr taken_id)],
                JObj [(''title'', JStr ''call home''), (''ui_code'', JStr taken_id)]]),
        Inr (Object [(''title'', JStr ''call home''), (''ui_code'', JStr taken_id)]))"
  by (simp add: getAll_def addRecord_def default_to_def getData_unfiltered or_empty_def
      persistData_def setItem_def JSON_stringify_def taken_backend_def getEntityName_def
      ENTITY_PREFIX_def)

text \<open>
  C7. \<open>initEntity\<close> is meant to leave an empty collection where none existed. The code
  does not: it adds the array \<open>[]\<close> as a record, so the persisted collection, and what
  \<open>getAll\<close> returns, is \<open>[[]]\<close>, of length one.
\<close>

theorem initEntity_seeds_one_element:
  "fst (initEntity u (be(getEntityName entity False := None)) entity) (getEntityName entity False)
     = Some (JArr [JArr []])
   \<and> getAll (fst (initEntity u (be(getEntityName entity False := None)) entity)) entity
     = Inr (JArr [JArr []])"
  by (simp add: initEntity_def addRecord_def getData_unfiltered or_empty_def persistData_def
      setItem_def JSON_stringify_def getAll_def default_to_def)

section \<open>Updating a record\<close>

lemma find_record_none:
  "\<forall>x\<in>set xs. x \<noteq> JNull \<and> get_prop x ''ui_code'' \<noteq> Inr (Some (JStr k)) \<Longrightarrow>
   find_record xs (Some (JStr k)) i = Inr None"
proof (induction xs arbitrary: i)
  case Nil
  then show ?case by simp
next
  case (Cons x xs)
  then have x: "x \<noteq> JNull" "get_prop x ''ui_code'' \<noteq> Inr (Some (JStr k))" by auto
  from get_prop_total [OF x(1)] obtain v where v: "get_prop x ''ui_code'' = Inr v" by blast
  with x(2) have "\<not> strict_eq_opt v (Some (JStr k))"
    by (auto simp: strict_eq_opt_Some strict_eq_JStr)
  with v Cons show ?case by simp
qed

lemma find_record_first:
  "\<forall>x\<in>set before. x \<noteq> JNull \<and> get_prop x ''ui_code'' \<noteq> Inr (Some (JStr k)) \<Longrightarrow>
   get_prop r ''ui_code'' = Inr (Some (JStr k)) \<Longrightarrow>
   find_record (before @ r # after) (Some (JStr k)) i = Inr (Some (r, i + length before))"
proof (induction before arbitrary: i)
  case Nil
  then show ?case by simp
next
  case (Cons x xs)
  then have x: "x \<noteq> JNull" "get_prop x ''ui_code'' \<noteq> Inr (Some (JStr k))" by auto
  from get_prop_total [OF x(1)] obtain v where v: "get_prop x ''ui_code'' = Inr v" by blast
  with x(2) have "\<not> strict_eq_opt v (Some (JStr k))"
    by (auto simp: strict_eq_opt_Some strict_eq_JStr)
  with v Cons show ?case by simp
qed

text \<open>The spread of a patch over a record, field by field (a patch names each key once).\<close>

lemma map_of_spread_merge:
  "distinct (map fst b) \<Longrightarrow> map_of (spread_merge a b) = map_of a ++ map_of b"
proof (induction b arbitrary: a)
  case Nil
  then show ?case by (simp add: spread_merge_def)
next
  case (Cons p b)
  obtain k v where p: "p = (k, v)" by (cases p)
  from Cons.prems p have d: "distinct (map fst b)" and k: "k \<notin> dom (map_of b)"
    by (auto simp: dom_map_of_conv_image_fst)
  have "map_of (spread_merge a (p # b)) = map_of (spread_merge (AList.update k v a) b)"
    by (simp add: spread_merge_def p)
  also have "\<dots> = map_of (AList.update k v a) ++ map_of b"
    by (rule Cons.IH [OF d])
  also have "\<dots> = (map_of a)(k \<mapsto> v) ++ map_of b"
    by (simp only: update_conv')
  also have "\<dots> = (map_of a ++ map_of b)(k \<mapsto> v)"
    using k by (rule map_add_upd_left)
  finally have "map_of (spread_merge a (p # b)) = (map_of a ++ map_of b)(k \<mapsto> v)" .
  moreover have "map_of a ++ map_of (p # b) = (map_of a ++ map_of b)(k \<mapsto> v)"
    by (simp only: p map_of.simps fst_conv snd_conv map_add_upd)
  ultimately show ?case by (simp only:)
qed

text \<open>
  C3. Let the collection hold a record \<open>r\<close> with \<open>ui_code\<close> \<open>k\<close>, the first one with
  that identifier, and let the patch \<open>newData\<close> carry the same \<open>ui_code\<close>. Then
  \<open>updateRecord\<close> puts the shallow merge of \<open>newData\<close> over \<open>r\<close> in the place of \<open>r\<close> and
  persists the whole collection: a field that \<open>newData\<close> has takes the patch's value,
  every other field of \<open>r\<close> keeps its value.
\<close>

theorem updateRecord_shallow_merge:
  assumes "be (getEntityName entity False) = Some (JArr (before @ JObj r # after))"
    and "map_of r ''ui_code'' = Some (JStr k)"
    and "map_of newData ''ui_code'' = Some (JStr k)" and "k \<noteq> []"
    and "distinct (map fst newData)"
    and "\<forall>x\<in>set before. x \<noteq> JNull \<and> get_prop x ''ui_code'' \<noteq> Inr (Some (JStr k))"
  shows "updateRecord be entity (Some (JObj newData)) =
           (be(getEntityName entity False \<mapsto> JArr (before @ JObj (spread_merge r newData) # after)),
            Inr True)
       \<and> (\<forall>key. map_of (spread_merge r newData) key =
                  (case map_of newData key of None \<Rightarrow> map_of r key | Some v \<Rightarrow> Some v))"
proof -
  have found: "find_record (before @ JObj r # after) (Some (JStr k)) 0
                 = Inr (Some (JObj r, 0 + length before))"
    using assms(6,2) by (intro find_record_first) simp_all
  have "updateRecord be entity (Some (JObj newData)) =
           (be(getEntityName entity False \<mapsto> JArr (before @ JObj (spread_merge r newData) # after)),
            Inr True)"
    using assms(1,3,4) found
    by (simp add: updateRecord_def default_to_def getData_unfiltered or_empty_def persistData_def
        setItem_def JSON_stringify_def)
  moreover have "\<forall>key. map_of (spread_merge r newData) key =
                  (case map_of newData key of None \<Rightarrow> map_of r key | Some v \<Rightarrow> Some v)"
    by (simp add: map_of_spread_merge [OF assms(5)] map_add_def)
  ultimately show ?thesis by simp
qed

text \<open>
  The record \<open>{ui_code: "a", x: 1, y: 2}\<close>, second in its collection, patched with
  \<open>{ui_code: "a", y: 5}\<close>, becomes \<open>{ui_code: "a", x: 1, y: 5}\<close>.
\<close>

theorem updateRecord_shallow_merge_witness:
  "updateRecord items_backend ''items'' (Some (JObj [(''ui_code'', JStr ''a''), (''y'', JNum 5)])) =
     (items_backend(''entity_items'' \<mapsto>
        JArr [JObj [(''ui_code'', JStr ''b''), (''x'', JNum 0)],
              JObj [(''ui_code'', JStr ''a''), (''x'', JNum 1), (''y'', JNum 5)]]),
      Inr True)
   \<and> map_of (spread_merge [(''ui_code'', JStr ''a''), (''x'', JNum 1), (''y'', JNum 2)]
                [(''ui_code'', JStr ''a''), (''y'', JNum 5)]) ''x'' = Some (JNum 1)"
  using updateRecord_shallow_merge
          [where be = items_backend and entity = "''items''" and k = "''a''"
             and before = "[JObj [(''ui_code'', JStr ''b''), (''x'', JNum 0)]]"
             and r = "[(''ui_code'', JStr ''a''), (''x'', JNum 1), (''y'', JNum 2)]"
             and after = "[]"
             and newData = "[(''ui_code'', JStr ''a''), (''y'', JNum 5)]",
           OF items_backend_stored]
  by (simp add: spread_merge_def getEntityName_def ENTITY_PREFIX_def)

text \<open>
  C2. \<open>updateRecord\<close> is meant to fail when the patch's \<open>ui_code\<close> matches no record. The
  code does not: \<open>find\<close> returns nothing, \<open>recordIndex\<close> stays \<open>null\<close>, the merged patch is
  assigned to the property \<open>null\<close> of the array, and the call persists the collection
  as it was and returns \<open>true\<close>.
\<close>

theorem updateRecord_unknown_id_succeeds:
  assumes "be (getEntityName entity False) = Some (JArr records)"
    and "\<forall>x\<in>set records. x \<noteq> JNull \<and> get_prop x ''ui_code'' \<noteq> Inr (Some (JStr k))"
    and "map_of newData ''ui_code'' = Some (JStr k)" and "k \<noteq> []"
  shows "updateRecord be entity (Some (JObj newData)) = (be, Inr True)"
  using assms(1,3,4) find_record_none [OF assms(2), of 0]
  by (simp add: updateRecord_def default_to_def getData_unfiltered or_empty_def persistData_def
      setItem_def JSON_stringify_def map_upd_triv)

theorem updateRecord_unknown_id_succeeds_witness:
  "updateRecord items_backend ''items'' (Some (JObj [(''ui_code'', JStr ''c''), (''y'', JNum 5)]))
     = (items_backend, Inr True)"
  using updateRecord_unknown_id_succeeds
          [where be = items_backend and entity = "''items''" and k = "''c''"
             and newData = "[(''ui_code'', JStr ''c''), (''y'', JNum 5)]", OF items_backend_stored]
  by simp

section \<open>Deleting a record\<close>

lemma filter_others_filter:
  "JNull \<notin> set xs \<Longrightarrow>
   filter_others xs (Some (JStr k)) =
     Inr (filter (\<lambda>r. get_prop r ''ui_code'' \<noteq> Inr (Some (JStr k))) xs)"
proof (induction xs)
  case Nil
  then show ?case by simp
next
  case (Cons x xs)
  then have x: "x \<noteq> JNull" and xs: "JNull \<notin> set xs" by auto
  from get_prop_total [OF x] obtain v where v: "get_prop x ''ui_code'' = Inr v" by blast
  show ?case using Cons.IH [OF xs] v
    by (auto simp: strict_eq_opt_Some strict_eq_JStr)
qed

lemma deleteRecord_stored:
  assumes "be (getEntityName entity False) = Some (JArr records)"
    and "JNull \<notin> set records" and "k \<noteq> []"
  shows "deleteRecord be entity (Some (JStr k)) =
           (be(getEntityName entity False \<mapsto>
                 JArr (filter (\<lambda>r. get_prop r ''ui_code'' \<noteq> Inr (Some (JStr k))) records)),
            Inr True)"
  using assms
  by (simp add: deleteRecord_def getData_unfiltered or_empty_def persistData_def
      setItem_def JSON_stringify_def filter_others_filter)

text \<open>
  C6. When the entity's collection exists and the id \<open>k\<close> is a non-empty string,
  \<open>deleteRecord\<close> persists the collection without the records whose \<open>ui_code\<close> is \<open>k\<close>,
  the others in their order, and returns \<open>true\<close>. When no record has that \<open>ui_code\<close>
  the call succeeds and the backend is unchanged; so a second delete of the same id
  changes nothing.
\<close>

theorem deleteRecord_removes_matching:
  assumes "be (getEntityName entity False) = Some (JArr records)"
    and "JNull \<notin> set records" and "k \<noteq> []"
  shows "deleteRecord be entity (Some (JStr k)) =
           (be(getEntityName entity False \<mapsto>
                 JArr (filter (\<lambda>r. get_prop r ''ui_code'' \<noteq> Inr (Some (JStr k))) records)),
            Inr True)
       \<and> ((\<forall>r\<in>set records. get_prop r ''ui_code'' \<noteq> Inr (Some (JStr k))) \<longrightarrow>
            deleteRecord be entity (Some (JStr k)) = (be, Inr True))
       \<and> deleteRecord (fst (deleteRecord be entity (Some (JStr k)))) entity (Some (JStr k)) =
            (fst (deleteRecord be entity (Some (JStr k))), Inr True)"
proof -
  let ?P = "\<lambda>r. get_prop r ''ui_code'' \<noteq> Inr (Some (JStr k))"
  let ?key = "getEntityName entity False"
  have first: "deleteRecord be entity (Some (JStr k)) =
                 (be(?key \<mapsto> JArr (filter ?P records)), Inr True)"
    using assms by (rule deleteRecord_stored)
  have unchanged: "(\<forall>r\<in>set records. ?P r) \<longrightarrow> deleteRecord be entity (Some (JStr k)) = (be, Inr True)"
  proof
    assume "\<forall>r\<in>set records. ?P r"
    then have "filter ?P records = records" by simp
    with first assms(1) show "deleteRecord be entity (Some (JStr k)) = (be, Inr True)"
      by (simp add: map_upd_triv)
  qed
  let ?be' = "be(?key \<mapsto> JArr (filter ?P records))"
  have stored': "?be' ?key = Some (JArr (filter ?P records))" by simp
  have recs': "JNull \<notin> set (filter ?P records)" using assms(2) by simp
  have "deleteRecord ?be' entity (Some (JStr k)) =
          (?be'(?key \<mapsto> JArr (filter ?P (filter ?P records))), Inr True)"
    using stored' recs' assms(3) by (rule deleteRecord_stored)
  then have "deleteRecord ?be' entity (Some (JStr k)) = (?be', Inr True)"
    by simp
  with first unchanged show ?thesis by simp
qed

theorem deleteRecord_removes_matching_witness:
  "deleteRecord todos_backend ''todos'' (Some (JStr ''id-2'')) =
     (todos_backend(''entity_todos'' \<mapsto>
        JArr [JObj [(''title'', JStr ''buy milk''), (''done'', JBool True), (''ui_code'', JStr ''id-1'')],
              JObj [(''title'', JStr ''pay rent''), (''done'', JBool True), (''ui_code'', JStr ''id-3'')]]),
      Inr True)
   \<and> deleteRecord todos_backend ''todos'' (Some (JStr ''id-9'')) = (todos_backend, Inr True)"
proof -
  have records: "JNull \<notin> set todos_example"
    by (simp add: todos_example_def)
  have removed: "deleteRecord todos_backend ''todos'' (Some (JStr ''id-2'')) =
     (todos_backend(''entity_todos'' \<mapsto>
        JArr [JObj [(''title'', JStr ''buy milk''), (''done'', JBool True), (''ui_code'', JStr ''id-1'')],
              JObj [(''title'', JStr ''pay rent''), (''done'', JBool True), (''ui_code'', JStr ''id-3'')]]),
      Inr True)"
    using deleteRecord_removes_matching
            [where be = todos_backend and entity = "''todos''" and k = "''id-2''",
             OF todos_backend_stored records]
    by (simp add: todos_example_def getEntityName_def ENTITY_PREFIX_def)
  have no_such: "\<forall>r\<in>set todos_example. get_prop r ''ui_code'' \<noteq> Inr (Some (JStr ''id-9''))"
    by (simp add: todos_example_def)
  have non_empty: "''id-9'' \<noteq> []"
    by simp
  have absent: "deleteRecord todos_backend ''todos'' (Some (JStr ''id-9'')) = (todos_backend, Inr True)"
    using deleteRecord_removes_matching
            [where be = todos_backend and entity = "''todos''" and k = "''id-9''",
             OF todos_backend_stored records non_empty] no_such
    by blast
  from removed absent show ?thesis by simp
qed

text \<open>
  C9. When the entity's collection is absent, \<open>getAll\<close> returns \<open>false\<close>; a
  \<open>deleteRecord\<close> with any non-empty id then writes the empty collection and returns
  \<open>true\<close>, and \<open>getAll\<close> returns the empty sequence afterwards.
\<close>

theorem deleteRecord_creates_absent_collection:
  "getAll (be(getEntityName entity False := None)) entity = Inr (JBool False)
   \<and> deleteRecord (be(getEntityName entity False := None)) entity (Some (JStr (c # cs)))
       = (be(getEntityName entity False \<mapsto> JArr []), Inr True)
   \<and> getAll (fst (deleteRecord (be(getEntityName entity False := None)) entity (Some (JStr (c # cs))))) entity
       = Inr (JArr [])"
  by (simp add: getAll_def deleteRecord_def getData_unfiltered or_empty_def persistData_def
      setItem_def JSON_stringify_def)

section \<open>Stores and the session\<close>

text \<open>
  C8. With a backend whose \<open>set\<close> resolves with no value, \<open>setStore\<close> and \<open>initStore\<close>
  write the value (the default \<open>{}\<close> when omitted) under the store's key and then throw
  the \<open>SyntaxError\<close> of \<open>JSON.parse(undefined)\<close>, for every store name and value; a
  \<open>getStore\<close> after the failed call returns the written value.
\<close>

theorem setStore_throws_after_writing:
  "setStore RUndefined be name v =
     (be(getEntityName name True \<mapsto> default_to (JObj []) v), Inl SyntaxError)
   \<and> initStore RUndefined be name v =
     (be(getEntityName name True \<mapsto> default_to (JObj []) v), Inl SyntaxError)
   \<and> getStore (fst (setStore RUndefined be name v)) name = Inr (default_to (JObj []) v)
   \<and> getStore (fst (initStore RUndefined be name v)) name = Inr (default_to (JObj []) v)"
  by (simp add: setStore_def initStore_def getStore_def setItem_def getItem_def JSON_stringify_def
      Let_def)

text \<open>
  For contrast: once \<open>read\<close> has run against a backend without a session store, the
  cache is \<open>false\<close> and \<open>get\<close> returns the default.
\<close>

lemma SessionService_get_after_read:
  "SessionService_get (fst (SessionService_read this (be(getEntityName SESSION_STORE True := None))))
     key defaultValue = Inr (default_to JNull defaultValue)"
  by (simp add: SessionService_get_def SessionService_read_def getStore_def getItem_def)

text \<open>
  C10. On a new \<open>SessionService\<close>, and in any state whose cache \<open>session\<close> is \<open>null\<close>,
  \<open>get(key, defaultValue)\<close> throws a \<open>TypeError\<close> for every key and every default: it
  never returns the default.
\<close>

theorem SessionService_get_null_cache_throws:
  "SessionService_get SessionService_new key defaultValue = Inl TypeError
   \<and> SessionService_get (this\<lparr>session := JNull\<rparr>) key defaultValue = Inl TypeError"
  by (simp add: SessionService_get_def SessionService_new_def)

end
